theory Spec2Isabelle
  imports Complex_Main
begin

section \<open>Data model of peakpower.py\<close>

text \<open>
  The enumeration \<open>PeakBuzzer.Alarm\<close> with the integer value of every member.
\<close>

datatype Alarm = IDLE | TEST | LEVEL_1 | LEVEL_2 | LEVEL_3

fun alarm_value :: "Alarm \<Rightarrow> int" where
  "alarm_value IDLE = 0"
| "alarm_value TEST = 99"
| "alarm_value LEVEL_1 = 1"
| "alarm_value LEVEL_2 = 2"
| "alarm_value LEVEL_3 = 3"

text \<open>
  Exceptions of the Python code that a claim depends on. None of them is caught anywhere:
  an exception ends the process, here the result \<open>Inl e\<close>.
\<close>

datatype error = ValueError | ZeroDivisionError | IndexError

text \<open>
  The fields of \<open>datetime.datetime.now()\<close> that the main loop reads. Python integers are
  unbounded, so they are \<open>int\<close>; the ranges that the datetime type guarantees are the
  predicate \<open>valid_datetime\<close>.
\<close>

record datetime =
  hour :: int
  minute :: int
  second :: int

definition valid_datetime :: "datetime \<Rightarrow> bool" where
  "valid_datetime now \<longleftrightarrow>
     0 \<le> hour now \<and> hour now < 24 \<and>
     0 \<le> minute now \<and> minute now < 60 \<and>
     0 \<le> second now \<and> second now < 60"

section \<open>get_monthly_peak\<close>

text \<open>
  The result set of the monthly query, reduced to what the function reads: the
  \<open>yield\<close> values (in kW) of the points tagged rate1 and of those tagged rate2.
\<close>

record result_set =
  rate1_yields :: "real list"
  rate2_yields :: "real list"

text \<open>
  Python's \<open>max\<close> over a generator: ValueError when it is empty, otherwise the first
  item is kept and replaced by every later item that is greater.
\<close>

fun py_max :: "real list \<Rightarrow> error + real" where
  "py_max [] = Inl ValueError"
| "py_max (x # xs) = Inr (fold (\<lambda>y m. if m < y then y else m) xs x)"

definition get_monthly_peak :: "result_set \<Rightarrow> error + real" where
  "get_monthly_peak rs =
     (case py_max (rate1_yields rs) of
        Inl e \<Rightarrow> Inl e
      | Inr rate1 \<Rightarrow>
          (case py_max (rate2_yields rs) of
             Inl e \<Rightarrow> Inl e
           | Inr rate2 \<Rightarrow> Inr (max (max rate1 rate2) 2.5 * 1000)))"

section \<open>The estimator (main loop, lines 186-200)\<close>

definition total_seconds :: int where
  "total_seconds = 15 * 60"

definition seconds_passed :: "datetime \<Rightarrow> int" where
  "seconds_passed now = ((minute now mod 15) * 60) + second now"

text \<open>Python's \<open>/\<close> on integers is true division: the operands are read as reals.\<close>

definition continuation_chance :: "int \<Rightarrow> real" where
  "continuation_chance sp = 0.25 + (0.75 * (of_int sp / of_int total_seconds))"

text \<open>Division by a zero \<open>seconds_passed\<close> raises ZeroDivisionError.\<close>

definition current_peak_estimate_linear :: "real \<Rightarrow> int \<Rightarrow> error + real" where
  "current_peak_estimate_linear current_peak sp =
     (if sp = 0 then Inl ZeroDivisionError
      else Inr ((current_peak / of_int sp) * of_int total_seconds))"

definition current_peak_estimate_continuation :: "real \<Rightarrow> real \<Rightarrow> int \<Rightarrow> real" where
  "current_peak_estimate_continuation current_peak current_power sp =
     current_peak + (current_power * of_int (total_seconds - sp) / (3600 / 4))"

definition current_peak_estimate :: "real \<Rightarrow> real \<Rightarrow> real \<Rightarrow> real" where
  "current_peak_estimate lin cont chance =
     (lin + cont + (cont * chance)) / (2 + chance)"

record estimation =
  estimate_linear :: real
  estimate_continuation :: real
  chance :: real
  estimate :: real

definition estimator :: "real \<Rightarrow> real \<Rightarrow> int \<Rightarrow> error + estimation" where
  "estimator current_peak current_power sp =
     (let c = continuation_chance sp in
      case current_peak_estimate_linear current_peak sp of
        Inl e \<Rightarrow> Inl e
      | Inr lin \<Rightarrow>
          (let cont = current_peak_estimate_continuation current_peak current_power sp in
           Inr \<lparr>estimate_linear = lin, estimate_continuation = cont, chance = c,
                estimate = current_peak_estimate lin cont c\<rparr>))"

section \<open>The alarm decision (main loop, lines 208-217)\<close>

definition alarm_of_ratio :: "real \<Rightarrow> Alarm" where
  "alarm_of_ratio ratio =
     (if ratio < 0.9 then IDLE
      else if ratio < 1 then LEVEL_1
      else if ratio < 1.1 then LEVEL_2
      else LEVEL_3)"

text \<open>\<open>ratio = current_peak_estimate / monthly_peak\<close> raises on a zero monthly peak.\<close>

definition decide_alarm :: "real \<Rightarrow> real \<Rightarrow> error + Alarm" where
  "decide_alarm est monthly_peak =
     (if monthly_peak = 0 then Inl ZeroDivisionError
      else Inr (alarm_of_ratio (est / monthly_peak)))"

section \<open>One iteration of the main loop (lines 163-221)\<close>

text \<open>
  What the data source would answer at this tick: the result set of the monthly query,
  and what \<open>get_current_power()\<close> and \<open>get_current_peak()\<close> return or raise.
\<close>

record sources =
  monthly_rs :: result_set
  power_now :: "error + real"
  peak_now :: "error + real"

datatype query = MonthlyPeakQuery | CurrentPowerQuery | CurrentPeakQuery

text \<open>
  The effects of one iteration: the value of the global \<open>monthly_peak\<close> afterwards, the
  queries sent, and the level passed to \<open>buzzer.set_alarm\<close>, if it was called.
\<close>

record tick_result =
  new_monthly_peak :: real
  queried :: "query list"
  alarm_set :: "Alarm option"

definition skip_tick :: "real \<Rightarrow> error + tick_result" where
  "skip_tick monthly_peak =
     Inr \<lparr>new_monthly_peak = monthly_peak, queried = [], alarm_set = None\<rparr>"

definition take_sample :: "datetime \<Rightarrow> sources \<Rightarrow> real \<Rightarrow> error + tick_result" where
  "take_sample now src monthly_peak =
     (case power_now src of
        Inl e \<Rightarrow> Inl e
      | Inr current_power \<Rightarrow>
     (case peak_now src of
        Inl e \<Rightarrow> Inl e
      | Inr current_peak \<Rightarrow>
     (case estimator current_peak current_power (seconds_passed now) of
        Inl e \<Rightarrow> Inl e
      | Inr r \<Rightarrow>
     (case decide_alarm (estimate r) monthly_peak of
        Inl e \<Rightarrow> Inl e
      | Inr alarm \<Rightarrow>
          Inr \<lparr>new_monthly_peak = monthly_peak,
               queried = [CurrentPowerQuery, CurrentPeakQuery],
               alarm_set = Some alarm\<rparr>))))"

definition loop_body :: "datetime \<Rightarrow> sources \<Rightarrow> real \<Rightarrow> error + tick_result" where
  "loop_body now src monthly_peak =
     (if minute now mod 15 = 0 \<and> (second now - 1) = 0 then
        (case get_monthly_peak (monthly_rs src) of
           Inl e \<Rightarrow> Inl e
         | Inr p \<Rightarrow>
             Inr \<lparr>new_monthly_peak = p, queried = [MonthlyPeakQuery], alarm_set = None\<rparr>)
      else if hour now \<ge> 23 \<or> hour now \<le> 6 then skip_tick monthly_peak
      else if minute now mod 15 < 5 then skip_tick monthly_peak
      else if (second now - 1) mod 30 \<noteq> 0 then skip_tick monthly_peak
      else take_sample now src monthly_peak)"

section \<open>PeakBuzzer: the alarm thread (lines 56-102)\<close>

text \<open>
  What the thread does to the outside world, in order: switching the buzzer, sleeping
  for a number of milliseconds (\<open>time.sleep(0.1)\<close> is \<open>Sleep 100\<close>), and the
  module's \<open>sleep()\<close>, which waits for the next full second. Logging is left out.
\<close>

datatype event = BuzzerOn | BuzzerOff | Sleep nat | SleepToNextSecond

text \<open>The four statements of the body of either \<open>for\<close> loop.\<close>

datatype stage = StageOn | StageOnSleep | StageOff | StageOffSleep

text \<open>
  The places of \<open>run\<close> between two accesses to the shared attribute \<open>self.state\<close> or
  two effects. \<open>Pulse d n i st\<close> is inside a \<open>for\<close> loop over \<open>range(n)\<close> whose sleeps
  last \<open>d\<close> ms, in iteration \<open>i\<close>, before statement \<open>st\<close>. The range is evaluated
  once, on entry, so \<open>n\<close> is part of the place and not read again.
\<close>

datatype place =
    CheckIdle
  | CheckTest
  | LogFiring
  | EvalRange
  | Pulse nat nat nat stage
  | SetIdle

record buzzer =
  state :: Alarm
  pc :: place
  trace :: "event list"

definition set_alarm :: "buzzer \<Rightarrow> Alarm \<Rightarrow> buzzer" where
  "set_alarm b level = b\<lparr>state := level\<rparr>"

definition emit :: "event \<Rightarrow> buzzer \<Rightarrow> buzzer" where
  "emit e b = b\<lparr>trace := trace b @ [e]\<rparr>"

text \<open>Entering \<open>for i in range(n)\<close>: an empty range skips the body.\<close>

definition for_entry :: "nat \<Rightarrow> nat \<Rightarrow> place" where
  "for_entry d n = (if 0 < n then Pulse d n 0 StageOn else SetIdle)"

text \<open>
  One atomic step of the thread. Line 80 reads \<open>self.state\<close>, line 84 reads it again,
  line 95 reads it for the log message and line 96 reads it for the range; lines 92 and
  102 write IDLE.
\<close>

definition run_step :: "buzzer \<Rightarrow> buzzer" where
  "run_step b =
     (case pc b of
        CheckIdle \<Rightarrow>
          (if state b = IDLE then emit SleepToNextSecond b else b\<lparr>pc := CheckTest\<rparr>)
      | CheckTest \<Rightarrow>
          (if state b = TEST then b\<lparr>pc := for_entry 100 3\<rparr> else b\<lparr>pc := LogFiring\<rparr>)
      | LogFiring \<Rightarrow> b\<lparr>pc := EvalRange\<rparr>
      | EvalRange \<Rightarrow> b\<lparr>pc := for_entry 500 (nat (alarm_value (state b)))\<rparr>
      | Pulse d n i st \<Rightarrow>
          (case st of
             StageOn \<Rightarrow> emit BuzzerOn (b\<lparr>pc := Pulse d n i StageOnSleep\<rparr>)
           | StageOnSleep \<Rightarrow> emit (Sleep d) (b\<lparr>pc := Pulse d n i StageOff\<rparr>)
           | StageOff \<Rightarrow> emit BuzzerOff (b\<lparr>pc := Pulse d n i StageOffSleep\<rparr>)
           | StageOffSleep \<Rightarrow>
               emit (Sleep d)
                 (b\<lparr>pc := (if Suc i < n then Pulse d n (Suc i) StageOn else SetIdle)\<rparr>))
      | SetIdle \<Rightarrow> set_alarm (b\<lparr>pc := CheckIdle\<rparr>) IDLE)"

text \<open>
  An interleaving of the two threads: at every position either the alarm thread takes
  one step, or the main thread calls \<open>buzzer.set_alarm(level)\<close>.
\<close>

datatype actor = Controller | Scheduler Alarm

fun exec :: "actor list \<Rightarrow> buzzer \<Rightarrow> buzzer" where
  "exec [] b = b"
| "exec (Controller # s) b = exec s (run_step b)"
| "exec (Scheduler level # s) b = exec s (set_alarm b level)"

fun controller_steps :: "actor list \<Rightarrow> nat" where
  "controller_steps [] = 0"
| "controller_steps (Controller # s) = Suc (controller_steps s)"
| "controller_steps (Scheduler level # s) = controller_steps s"

text \<open>\<open>pulses d n\<close>: \<open>n\<close> pulses, each \<open>d\<close> ms on and \<open>d\<close> ms off.\<close>

fun pulses :: "nat \<Rightarrow> nat \<Rightarrow> event list" where
  "pulses d 0 = []"
| "pulses d (Suc n) = [BuzzerOn, Sleep d, BuzzerOff, Sleep d] @ pulses d n"

text \<open>
  For the proofs: the events that a started pattern has still to produce, as a function
  of the place alone.
\<close>

fun rest_of_pulse :: "nat \<Rightarrow> stage \<Rightarrow> event list" where
  "rest_of_pulse d StageOn = [BuzzerOn, Sleep d, BuzzerOff, Sleep d]"
| "rest_of_pulse d StageOnSleep = [Sleep d, BuzzerOff, Sleep d]"
| "rest_of_pulse d StageOff = [BuzzerOff, Sleep d]"
| "rest_of_pulse d StageOffSleep = [Sleep d]"

fun pending :: "place \<Rightarrow> event list" where
  "pending (Pulse d n i st) = rest_of_pulse d st @ pulses d (n - Suc i)"
| "pending _ = []"

fun firing :: "place \<Rightarrow> bool" where
  "firing (Pulse d n i st) = (i < n)"
| "firing SetIdle = True"
| "firing _ = False"

section \<open>Properties of the scheduler\<close>

text \<open>
  Claim C1 as it is written fails. It says that a tick in the idle hours never refreshes
  the monthly peak, because the idle rule would come first. In the loop the refresh test
  of line 169 comes before the idle test of line 174: at 23:00:01, with a monthly peak of
  2500 W held so far and a data source that reports 3 kW, the monthly peak becomes 3000 W.
\<close>

theorem idle_hours_refresh_counterexample:
  "loop_body \<lparr>hour = 23, minute = 0, second = 1\<rparr>
     \<lparr>monthly_rs = \<lparr>rate1_yields = [3], rate2_yields = [2]\<rparr>,
      power_now = Inr 0, peak_now = Inr 0\<rparr> 2500
   = Inr \<lparr>new_monthly_peak = 3000, queried = [MonthlyPeakQuery], alarm_set = None\<rparr>"
  by (simp add: loop_body_def get_monthly_peak_def)

text \<open>
  C1, amended: on every tick whose hour is at least 23 or at most 6 no sample is taken and
  no alarm level is set. The tick does nothing at all unless minute mod 15 = 0 and
  second = 1; then it refreshes the monthly peak (or ends with the error of the query),
  since the refresh rule is evaluated before the idle rule.
\<close>

theorem idle_hours_no_sample:
  assumes "hour now \<ge> 23 \<or> hour now \<le> 6"
  shows "loop_body now src monthly_peak =
           (if minute now mod 15 = 0 \<and> second now = 1
            then map_sum id
                   (\<lambda>p. \<lparr>new_monthly_peak = p, queried = [MonthlyPeakQuery], alarm_set = None\<rparr>)
                   (get_monthly_peak (monthly_rs src))
            else Inr \<lparr>new_monthly_peak = monthly_peak, queried = [], alarm_set = None\<rparr>)
         \<and> (case loop_body now src monthly_peak of
               Inl e \<Rightarrow> True
             | Inr r \<Rightarrow> alarm_set r = None \<and> CurrentPowerQuery \<notin> set (queried r)
                          \<and> CurrentPeakQuery \<notin> set (queried r))"
  using assms
  by (auto simp add: loop_body_def skip_tick_def split: sum.splits)

theorem idle_hours_no_sample_witness:
  "loop_body \<lparr>hour = 3, minute = 20, second = 31\<rparr>
     \<lparr>monthly_rs = \<lparr>rate1_yields = [3], rate2_yields = [2]\<rparr>,
      power_now = Inr 9000, peak_now = Inr 9000\<rparr> 2500
   = Inr \<lparr>new_monthly_peak = 2500, queried = [], alarm_set = None\<rparr>
   \<and> loop_body \<lparr>hour = 23, minute = 45, second = 1\<rparr>
     \<lparr>monthly_rs = \<lparr>rate1_yields = [3], rate2_yields = [2]\<rparr>,
      power_now = Inr 9000, peak_now = Inr 9000\<rparr> 2500
   = Inr \<lparr>new_monthly_peak = 3000, queried = [MonthlyPeakQuery], alarm_set = None\<rparr>"
  using idle_hours_no_sample [of "\<lparr>hour = 3, minute = 20, second = 31\<rparr>"
      "\<lparr>monthly_rs = \<lparr>rate1_yields = [3], rate2_yields = [2]\<rparr>,
      power_now = Inr 9000, peak_now = Inr 9000\<rparr>" 2500]
    idle_hours_no_sample [of "\<lparr>hour = 23, minute = 45, second = 1\<rparr>"
      "\<lparr>monthly_rs = \<lparr>rate1_yields = [3], rate2_yields = [2]\<rparr>,
      power_now = Inr 9000, peak_now = Inr 9000\<rparr>" 2500]
  by (simp add: get_monthly_peak_def)

text \<open>
  C7: a tick of a valid datetime outside the idle hours, with minute mod 15 at least 5 and
  (second - 1) mod 30 = 0, runs the sampling branch; there \<open>seconds_passed\<close> is at least
  300, so the division of the linear estimate does not raise ZeroDivisionError and
  returns its quotient.
\<close>

theorem sampling_seconds_passed:
  assumes "valid_datetime now"
    and "\<not> (hour now \<ge> 23 \<or> hour now \<le> 6)"
    and "5 \<le> minute now mod 15"
    and "(second now - 1) mod 30 = 0"
  shows "loop_body now src monthly_peak = take_sample now src monthly_peak
         \<and> 300 \<le> seconds_passed now
         \<and> current_peak_estimate_linear current_peak (seconds_passed now)
             = Inr (current_peak / of_int (seconds_passed now) * 900)"
proof -
  have s: "0 \<le> second now" using assms(1) by (simp add: valid_datetime_def)
  have sp: "300 \<le> seconds_passed now"
    using assms(3) s by (simp add: seconds_passed_def)
  have lb: "loop_body now src monthly_peak = take_sample now src monthly_peak"
    using assms(2,3,4) by (simp add: loop_body_def)
  from sp lb show ?thesis
    by (simp add: current_peak_estimate_linear_def total_seconds_def)
qed

theorem sampling_seconds_passed_witness:
  "valid_datetime \<lparr>hour = 12, minute = 20, second = 1\<rparr>
   \<and> seconds_passed \<lparr>hour = 12, minute = 20, second = 1\<rparr> = 301
   \<and> current_peak_estimate_linear 3010 (seconds_passed \<lparr>hour = 12, minute = 20, second = 1\<rparr>)
       = Inr 9000"
  using sampling_seconds_passed [of "\<lparr>hour = 12, minute = 20, second = 1\<rparr>" _ _ 3010]
  by (simp add: valid_datetime_def seconds_passed_def)

section \<open>Properties of get_monthly_peak\<close>

text \<open>
  C4: whenever \<open>get_monthly_peak\<close> returns, which it does exactly when both rate bands
  have a point, the monthly peak is at least 2500 W, whatever the observed yields are;
  observed peaks of 1.2 kW and 1.8 kW give exactly 2500 W.
\<close>

theorem monthly_peak_floor:
  "(case get_monthly_peak rs of
      Inl e \<Rightarrow> e = ValueError \<and> (rate1_yields rs = [] \<or> rate2_yields rs = [])
    | Inr p \<Rightarrow> 2500 \<le> p \<and> rate1_yields rs \<noteq> [] \<and> rate2_yields rs \<noteq> [])
   \<and> get_monthly_peak \<lparr>rate1_yields = [1.2], rate2_yields = [1.8]\<rparr> = Inr 2500"
proof -
  have a: "get_monthly_peak \<lparr>rate1_yields = [1.2], rate2_yields = [1.8]\<rparr> = Inr 2500"
    by (simp add: get_monthly_peak_def)
  have b: "(case get_monthly_peak rs of
      Inl e \<Rightarrow> e = ValueError \<and> (rate1_yields rs = [] \<or> rate2_yields rs = [])
    | Inr p \<Rightarrow> 2500 \<le> p \<and> rate1_yields rs \<noteq> [] \<and> rate2_yields rs \<noteq> [])"
    by (cases "rate1_yields rs"; cases "rate2_yields rs")
       (simp_all add: get_monthly_peak_def)
  from a b show ?thesis by simp
qed

section \<open>Properties of the estimator\<close>

text \<open>
  C3: for a window peak of 3000 W, a current power of 4000 W and 450 seconds passed, the
  estimator returns the linear estimate 6000, the continuation estimate 5000, the
  confidence 0.625 and the blended estimate 14125 / 2.625, which is 5381 W to the
  nearest watt.
\<close>

theorem estimator_example:
  "estimator 3000 4000 450 =
     Inr \<lparr>estimate_linear = 6000, estimate_continuation = 5000, chance = 0.625,
          estimate = 14125 / 2.625\<rparr>
   \<and> \<bar>14125 / 2.625 - (5381::real)\<bar> < 1 / 2"
  by (simp add: estimator_def continuation_chance_def current_peak_estimate_linear_def
      current_peak_estimate_continuation_def current_peak_estimate_def total_seconds_def)

text \<open>
  C8: for 0 < seconds_passed < 900 the confidence weight is
  0.25 + 0.75 * seconds_passed / 900 and lies between 0.25 and 1; it is 0.25 at the start
  of the window and 1 at its end, and it grows linearly: \<open>d\<close> more seconds add
  \<open>0.75 * d / 900\<close>.
\<close>

theorem confidence_range:
  assumes "0 < sp" and "sp < 900"
  shows "continuation_chance sp = 0.25 + 0.75 * of_int sp / 900
         \<and> 0.25 \<le> continuation_chance sp \<and> continuation_chance sp \<le> 1.0
         \<and> continuation_chance 0 = 0.25 \<and> continuation_chance 900 = 1.0
         \<and> continuation_chance (sp + d) - continuation_chance sp = 0.75 * of_int d / 900"
  using assms by (simp add: continuation_chance_def total_seconds_def field_simps)

theorem confidence_range_witness:
  "(0::int) < 450 \<and> (450::int) < 900 \<and> continuation_chance 450 = 0.625
   \<and> continuation_chance (450 + 90) - continuation_chance 450 = 0.075"
  using confidence_range [of 450 90] by simp

text \<open>
  C9: for a confidence between 0.25 and 1 the blended estimate lies between the smaller
  and the larger of the linear and the continuation estimate, both included.
\<close>

theorem blended_between:
  assumes "0.25 \<le> c" and "c \<le> 1"
  shows "min L C \<le> current_peak_estimate L C c \<and> current_peak_estimate L C c \<le> max L C"
proof -
  have pos: "0 < 2 + c" using assms by simp
  have lo: "min L C * (2 + c) \<le> L + C + C * c"
  proof -
    have "min L C * (2 + c) = min L C + min L C * (1 + c)" by (simp add: algebra_simps)
    also have "\<dots> \<le> L + C * (1 + c)"
      using assms by (intro add_mono mult_right_mono) simp_all
    finally show ?thesis by (simp add: algebra_simps)
  qed
  have hi: "L + C + C * c \<le> max L C * (2 + c)"
  proof -
    have "L + C * (1 + c) \<le> max L C + max L C * (1 + c)"
      using assms by (intro add_mono mult_right_mono) simp_all
    then show ?thesis by (simp add: algebra_simps)
  qed
  show ?thesis
    unfolding current_peak_estimate_def
    using pos lo hi by (simp add: pos_le_divide_eq pos_divide_le_eq)
qed

theorem blended_between_witness:
  "(0.25::real) \<le> 0.625 \<and> (0.625::real) \<le> 1
   \<and> 5000 \<le> current_peak_estimate 6000 5000 0.625
   \<and> current_peak_estimate 6000 5000 0.625 \<le> 6000"
  using blended_between [of "0.625" 6000 5000] by simp

section \<open>Properties of the alarm decision\<close>

lemma alarm_of_ratio_bands:
  "(alarm_of_ratio r = IDLE \<longleftrightarrow> r < 0.9)
   \<and> (alarm_of_ratio r = LEVEL_1 \<longleftrightarrow> 0.9 \<le> r \<and> r < 1)
   \<and> (alarm_of_ratio r = LEVEL_2 \<longleftrightarrow> 1 \<le> r \<and> r < 1.1)
   \<and> (alarm_of_ratio r = LEVEL_3 \<longleftrightarrow> 1.1 \<le> r)
   \<and> alarm_of_ratio r \<noteq> TEST"
  by (auto simp add: alarm_of_ratio_def)

lemma alarm_of_ratio_mono:
  "r1 \<le> r2 \<Longrightarrow> alarm_value (alarm_of_ratio r1) \<le> alarm_value (alarm_of_ratio r2)"
  by (auto simp add: alarm_of_ratio_def)

lemma decide_alarm_ratio:
  "0 < monthly_peak \<Longrightarrow>
     decide_alarm est monthly_peak = Inr (alarm_of_ratio (est / monthly_peak))"
  by (simp add: decide_alarm_def)

text \<open>
  C2: for a monthly peak above 0 the decision returns a level, and with
  ratio = estimate / monthly peak that level is IDLE exactly when ratio < 0.9, LEVEL_1
  exactly when 0.9 \<le> ratio < 1, LEVEL_2 exactly when 1 \<le> ratio < 1.1 and LEVEL_3
  exactly when 1.1 \<le> ratio. A ratio on a boundary gets the band that starts there:
  0.9 gives LEVEL_1, 1.0 gives LEVEL_2 and 1.1 gives LEVEL_3.
\<close>

theorem alarm_level_bands:
  assumes "0 < monthly_peak"
  shows "(\<exists>a. decide_alarm est monthly_peak = Inr a
           \<and> (a = IDLE \<longleftrightarrow> est / monthly_peak < 0.9)
           \<and> (a = LEVEL_1 \<longleftrightarrow> 0.9 \<le> est / monthly_peak \<and> est / monthly_peak < 1)
           \<and> (a = LEVEL_2 \<longleftrightarrow> 1 \<le> est / monthly_peak \<and> est / monthly_peak < 1.1)
           \<and> (a = LEVEL_3 \<longleftrightarrow> 1.1 \<le> est / monthly_peak)
           \<and> a \<noteq> TEST)
         \<and> decide_alarm (0.9 * monthly_peak) monthly_peak = Inr LEVEL_1
         \<and> decide_alarm (1.0 * monthly_peak) monthly_peak = Inr LEVEL_2
         \<and> decide_alarm (1.1 * monthly_peak) monthly_peak = Inr LEVEL_3"
proof -
  note d = decide_alarm_ratio [OF assms]
  have bands: "\<exists>a. decide_alarm est monthly_peak = Inr a
           \<and> (a = IDLE \<longleftrightarrow> est / monthly_peak < 0.9)
           \<and> (a = LEVEL_1 \<longleftrightarrow> 0.9 \<le> est / monthly_peak \<and> est / monthly_peak < 1)
           \<and> (a = LEVEL_2 \<longleftrightarrow> 1 \<le> est / monthly_peak \<and> est / monthly_peak < 1.1)
           \<and> (a = LEVEL_3 \<longleftrightarrow> 1.1 \<le> est / monthly_peak)
           \<and> a \<noteq> TEST"
    unfolding d using alarm_of_ratio_bands [of "est / monthly_peak"] by blast
  have "0.9 * monthly_peak / monthly_peak = 0.9" using assms by simp
  then have b1: "decide_alarm (0.9 * monthly_peak) monthly_peak = Inr LEVEL_1"
    unfolding d by (simp add: alarm_of_ratio_def)
  have "1.0 * monthly_peak / monthly_peak = 1" using assms by simp
  then have b2: "decide_alarm (1.0 * monthly_peak) monthly_peak = Inr LEVEL_2"
    unfolding d by (simp add: alarm_of_ratio_def)
  have "1.1 * monthly_peak / monthly_peak = 1.1" using assms by simp
  then have b3: "decide_alarm (1.1 * monthly_peak) monthly_peak = Inr LEVEL_3"
    unfolding d by (simp add: alarm_of_ratio_def)
  from bands b1 b2 b3 show ?thesis by blast
qed

theorem alarm_level_bands_witness:
  "(0::real) < 2500 \<and> decide_alarm (0.9 * 2500) 2500 = Inr LEVEL_1
   \<and> decide_alarm (1.0 * 2500) 2500 = Inr LEVEL_2
   \<and> decide_alarm (1.1 * 2500) 2500 = Inr LEVEL_3"
  using alarm_level_bands [of 2500 0] by simp

text \<open>
  C10: for a fixed monthly peak above 0 the decision is monotone in the estimate: a
  larger or equal estimate gets a level that is larger or equal in the order
  IDLE < LEVEL_1 < LEVEL_2 < LEVEL_3, which is the order of the values 0, 1, 2, 3 of
  these members.
\<close>

theorem alarm_monotone:
  assumes "0 < monthly_peak" and "estimate1 \<le> estimate2"
  shows "\<exists>a1 a2. decide_alarm estimate1 monthly_peak = Inr a1
           \<and> decide_alarm estimate2 monthly_peak = Inr a2
           \<and> alarm_value a1 \<le> alarm_value a2
           \<and> a1 \<noteq> TEST \<and> a2 \<noteq> TEST"
proof -
  have "estimate1 / monthly_peak \<le> estimate2 / monthly_peak"
    using assms by (simp add: divide_right_mono)
  then have "alarm_value (alarm_of_ratio (estimate1 / monthly_peak))
               \<le> alarm_value (alarm_of_ratio (estimate2 / monthly_peak))"
    by (rule alarm_of_ratio_mono)
  then show ?thesis
    using alarm_of_ratio_bands
    by (simp add: decide_alarm_ratio [OF assms(1)])
qed

theorem alarm_monotone_witness:
  "(0::real) < 2500 \<and> (2300::real) \<le> 2600
   \<and> decide_alarm 2300 2500 = Inr LEVEL_1 \<and> decide_alarm 2600 2500 = Inr LEVEL_2
   \<and> alarm_value LEVEL_1 \<le> alarm_value LEVEL_2"
proof -
  have a: "decide_alarm 2300 2500 = Inr LEVEL_1" "decide_alarm 2600 2500 = Inr LEVEL_2"
    by (simp_all add: decide_alarm_def alarm_of_ratio_def)
  from alarm_monotone [of 2500 2300 2600] a show ?thesis by simp
qed

section \<open>Properties of the alarm thread\<close>

lemma exec_append: "exec (s @ t) b = exec t (exec s b)"
  by (induction s b rule: exec.induct) simp_all

lemma set_alarm_fields [simp]:
  "pc (set_alarm b level) = pc b" "trace (set_alarm b level) = trace b"
  "state (set_alarm b level) = level"
  by (simp_all add: set_alarm_def)

lemma rest_of_pulse_nonempty [simp]: "rest_of_pulse d st \<noteq> []"
  by (cases st) simp_all

lemma length_pulses: "length (pulses d n) = 4 * n"
  by (induction n) simp_all

text \<open>
  One step of the thread inside a pattern produces the next pending event and leaves the
  rest of the pattern as it was, whatever \<open>state\<close> holds.
\<close>

lemma run_step_firing:
  assumes "firing (pc b)" and "pending (pc b) \<noteq> []"
  shows "firing (pc (run_step b))
         \<and> trace (run_step b) @ pending (pc (run_step b)) = trace b @ pending (pc b)
         \<and> Suc (length (pending (pc (run_step b)))) = length (pending (pc b))"
proof (cases "pc b")
  case (Pulse d n i st)
  with assms(1) have lt: "i < n" by simp
  show ?thesis
  proof (cases st)
    case StageOffSleep
    show ?thesis
    proof (cases "Suc i < n")
      case True
      then obtain m where m: "n - Suc i = Suc m" by (cases "n - Suc i") simp_all
      then have m': "n - Suc (Suc i) = m" by simp
      from True Pulse StageOffSleep m m' show ?thesis
        by (simp add: run_step_def emit_def)
    next
      case False
      with lt have "n - Suc i = 0" by simp
      with False Pulse StageOffSleep show ?thesis
        by (simp add: run_step_def emit_def)
    qed
  qed (use Pulse lt in \<open>simp_all add: run_step_def emit_def\<close>)
qed (use assms in simp_all)

lemma exec_firing:
  "firing (pc b) \<Longrightarrow> controller_steps s = length (pending (pc b)) \<Longrightarrow>
     pc (exec s b) = SetIdle \<and> trace (exec s b) = trace b @ pending (pc b)"
proof (induction s b rule: exec.induct)
  case (1 b)
  then show ?case by (cases "pc b") simp_all
next
  case (2 s b)
  from "2.prems"(2) have ne: "pending (pc b) \<noteq> []" by auto
  note st = run_step_firing [OF "2.prems"(1) ne]
  from st "2.prems"(2) have "controller_steps s = length (pending (pc (run_step b)))"
    by simp
  with st "2.IH" have "pc (exec s (run_step b)) = SetIdle
      \<and> trace (exec s (run_step b)) = trace (run_step b) @ pending (pc (run_step b))"
    by blast
  with st show ?case by simp
next
  case (3 level s b)
  then show ?case by simp
qed

text \<open>
  C5: run from line 80 with no write by the other thread in between, the loop on state
  TEST switches the buzzer on and off exactly 3 times with sleeps of 100 ms and then
  holds state IDLE at line 80 again; on state LEVEL_1, LEVEL_2, LEVEL_3 it does so
  exactly 1, 2, 3 times with sleeps of 500 ms and then holds state IDLE.
\<close>

theorem firing_patterns:
  "exec (replicate 15 Controller) \<lparr>state = TEST, pc = CheckIdle, trace = []\<rparr>
     = \<lparr>state = IDLE, pc = CheckIdle,
        trace = [BuzzerOn, Sleep 100, BuzzerOff, Sleep 100,
                 BuzzerOn, Sleep 100, BuzzerOff, Sleep 100,
                 BuzzerOn, Sleep 100, BuzzerOff, Sleep 100]\<rparr>
   \<and> exec (replicate 9 Controller) \<lparr>state = LEVEL_1, pc = CheckIdle, trace = []\<rparr>
     = \<lparr>state = IDLE, pc = CheckIdle,
        trace = [BuzzerOn, Sleep 500, BuzzerOff, Sleep 500]\<rparr>
   \<and> exec (replicate 13 Controller) \<lparr>state = LEVEL_2, pc = CheckIdle, trace = []\<rparr>
     = \<lparr>state = IDLE, pc = CheckIdle,
        trace = [BuzzerOn, Sleep 500, BuzzerOff, Sleep 500,
                 BuzzerOn, Sleep 500, BuzzerOff, Sleep 500]\<rparr>
   \<and> exec (replicate 17 Controller) \<lparr>state = LEVEL_3, pc = CheckIdle, trace = []\<rparr>
     = \<lparr>state = IDLE, pc = CheckIdle,
        trace = [BuzzerOn, Sleep 500, BuzzerOff, Sleep 500,
                 BuzzerOn, Sleep 500, BuzzerOff, Sleep 500,
                 BuzzerOn, Sleep 500, BuzzerOff, Sleep 500]\<rparr>"
  by (simp add: eval_nat_numeral run_step_def emit_def set_alarm_def for_entry_def)

text \<open>
  How a pattern begins: the step of line 84 on state TEST enters the loop of 3 short
  pulses, the step of line 96 on a level of value \<open>n > 0\<close> enters the loop of \<open>n\<close> long ones.
\<close>

lemma pattern_entry:
  "pc b = CheckTest \<Longrightarrow> state b = TEST \<Longrightarrow> pc (run_step b) = Pulse 100 3 0 StageOn"
  "pc b = EvalRange \<Longrightarrow> 0 < alarm_value (state b) \<Longrightarrow>
     pc (run_step b) = Pulse 500 (nat (alarm_value (state b))) 0 StageOn"
  by (simp_all add: run_step_def for_entry_def)

text \<open>
  C6: once a pattern of \<open>n\<close> pulses has begun (the thread is at the first statement of
  the \<open>for\<close> loop), every interleaving of the \<open>4 * n\<close> steps of the pattern with any calls
  of \<open>set_alarm\<close> by the main thread produces exactly the \<open>n\<close> pulses, and the next step
  of the thread leaves state IDLE, whatever levels were requested in between: they are
  overwritten, not queued.
\<close>

theorem pattern_runs_to_completion:
  assumes "pc b = Pulse d n 0 StageOn" and "0 < n"
    and "controller_steps s = 4 * n"
  shows "pc (exec s b) = SetIdle
         \<and> trace (exec s b) = trace b @ pulses d n
         \<and> exec (s @ [Controller]) b
             = \<lparr>state = IDLE, pc = CheckIdle, trace = trace b @ pulses d n\<rparr>"
proof -
  obtain m where m: "n = Suc m" using assms(2) by (cases n) simp_all
  have p: "pending (pc b) = pulses d n" using assms(1) m by simp
  have f: "firing (pc b)" using assms(1,2) by simp
  have c: "controller_steps s = length (pending (pc b))"
    using assms(3) p by (simp add: length_pulses)
  from exec_firing [OF f c] p
  have e: "pc (exec s b) = SetIdle" "trace (exec s b) = trace b @ pulses d n" by simp_all
  have "exec (s @ [Controller]) b = run_step (exec s b)" by (simp add: exec_append)
  also have "\<dots> = \<lparr>state = IDLE, pc = CheckIdle, trace = trace b @ pulses d n\<rparr>"
    using e by (simp add: run_step_def set_alarm_def)
  finally show ?thesis using e by simp
qed

theorem pattern_runs_to_completion_witness:
  "exec [Controller, Scheduler LEVEL_3, Controller, Controller, Scheduler LEVEL_2, Controller,
         Controller]
     \<lparr>state = LEVEL_1, pc = Pulse 500 1 0 StageOn, trace = []\<rparr>
   = \<lparr>state = IDLE, pc = CheckIdle, trace = [BuzzerOn, Sleep 500, BuzzerOff, Sleep 500]\<rparr>"
  using pattern_runs_to_completion
    [of "\<lparr>state = LEVEL_1, pc = Pulse 500 1 0 StageOn, trace = []\<rparr>" 500 1
        "[Controller, Scheduler LEVEL_3, Controller, Controller, Scheduler LEVEL_2, Controller]"]
  by simp

end
